theory Spec2Isabelle
  imports Complex_Main
begin

section \<open>The motion-to-note mapper of the buzzer sketch\<close>

text \<open>
  This theory embeds the note derivation of
  \<^verbatim>\<open>MPU_SEM_OSC/ESP32_MPU_BUZZER_SIMPLE/src/main.cpp\<close>: the duration table, the
  functions \<^verbatim>\<open>defineNoteDuration\<close>, \<^verbatim>\<open>defineMelodyNote\<close> and \<^verbatim>\<open>defineBassNote\<close>,
  and the two global note records they update.

  Conventions of the embedding:
  \<^item> The C++ type \<^verbatim>\<open>int\<close> is modelled by \<open>int\<close>. Pitches, octaves and durations of
    the sketch stay far away from the 32-bit limits, so no wrap-around is written out.
  \<^item> The \<^verbatim>\<open>float\<close> magnitudes \<^verbatim>\<open>totalAcc\<close> and \<^verbatim>\<open>totalSpin\<close> are modelled by \<open>real\<close>.
    The functions below only compare them with the constants 0.5, 0.75, 3 and 4, all of
    which are exact binary fractions, so on finite values the comparisons of the code are
    the comparisons of the reals. The callers \<^verbatim>\<open>playMelodyNote\<close> and \<^verbatim>\<open>playBassNote\<close>
    pass the square root of a sum of two squares of sensor readings, a finite
    non-negative number; a NaN, on which every comparison fails, is not modelled.
  \<^item> The hidden state of the random number generator is made explicit: a value of type
    \<open>rng\<close> is the infinite sequence of raw numbers the generator is going to deliver.
  \<^item> An out-of-bounds read of a C array is undefined behaviour; it is the result \<open>None\<close>.
\<close>

subsection \<open>Data\<close>

text \<open>
  \<^verbatim>\<open>struct note { int pitch; int octave; int duration; bool is_playing; }\<close>
  The record is called \<open>Note\<close> because the lower-case word is reserved in Isar.
\<close>

record Note =
  pitch :: int
  octave :: int
  duration :: int
  is_playing :: bool

type_synonym rng = "nat \<Rightarrow> nat"

text \<open>The mutable globals of the sketch, together with the generator state.\<close>

record sketch =
  melodyCurrentNote :: Note
  bassCurrentNote :: Note
  previousMillisMelody :: nat
  previousMillisBass :: nat
  pixelMelody :: int
  pixelBass :: int
  rng :: rng

text \<open>
  \<^verbatim>\<open>int noteDuration[] = {125, 125, 125, 125, 125, 125, 125, 125, 250, 250, 250, 250,
                         500, 500, 500, 500, 1000, 1000, 1000, 1500};\<close>
\<close>

definition noteDuration :: "int list" where
  "noteDuration =
     [125, 125, 125, 125, 125, 125, 125, 125, 250, 250, 250, 250,
      500, 500, 500, 500, 1000, 1000, 1000, 1500]"

text \<open>
  The table local to \<^verbatim>\<open>defineBassNote\<close>:
  \<^verbatim>\<open>int harmonics[8][3] = {{2, 4, 6}, {3, 5, 0}, {4, 6, 1}, {5, 0, 2},
                          {6, 1, 3}, {0, 2, 4}, {1, 3, 5}, {0, 2, 4}};\<close>
\<close>

definition harmonics :: "int list list" where
  "harmonics =
     [ [2, 4, 6], [3, 5, 0], [4, 6, 1], [5, 0, 2],
       [6, 1, 3], [0, 2, 4], [1, 3, 5], [0, 2, 4] ]"

text \<open>
  The read \<^verbatim>\<open>harmonics[row][col]\<close>. Outside the bounds of the 8 by 3 array the C++ read
  is undefined; the model answers \<open>None\<close>.
\<close>

definition harmonics_at :: "int \<Rightarrow> int \<Rightarrow> int option" where
  "harmonics_at row col =
     (if 0 \<le> row \<and> row < 8 \<and> 0 \<le> col \<and> col < 3
      then Some (harmonics ! nat row ! nat col) else None)"

text \<open>
  The initial values of the two global notes:
  \<^verbatim>\<open>struct note melodyCurrentNote = {0, 3, 0, false};\<close> and
  \<^verbatim>\<open>struct note bassCurrentNote = {0, 0, 0, false};\<close>
  The counters start at 0. The generator is a parameter.
\<close>

definition initial_sketch :: "rng \<Rightarrow> sketch" where
  "initial_sketch g =
     \<lparr> melodyCurrentNote = \<lparr> pitch = 0, octave = 3, duration = 0, is_playing = False \<rparr>,
       bassCurrentNote = \<lparr> pitch = 0, octave = 0, duration = 0, is_playing = False \<rparr>,
       previousMillisMelody = 0,
       previousMillisBass = 0,
       pixelMelody = 0,
       pixelBass = 0,
       rng = g \<rparr>"

subsection \<open>The random number generator\<close>

text \<open>
  Modelled from the spec: the function \<^verbatim>\<open>random(min, max)\<close> belongs to the Arduino core,
  not to the sources of the sketch. The spec reads \<^verbatim>\<open>random(a, b)\<close> as a draw from the
  half-open range \<open>[a, b)\<close> (``random value in [0,6)'', ``random index in [10,18)''),
  which is the contract of the Arduino core: the lower bound is inclusive, the upper
  bound exclusive, and \<^verbatim>\<open>min\<close> is returned when the range is empty. One raw number of
  the generator is consumed by each draw from a non-empty range, and every value of
  the range is the result for some raw number. The function is called \<open>random_range\<close>
  here because \<open>random\<close> is a constant of the HOL library.
\<close>

definition random_range :: "int \<Rightarrow> int \<Rightarrow> rng \<Rightarrow> int \<times> rng" where
  "random_range howsmall howbig g =
     (if howsmall \<ge> howbig then (howsmall, g)
      else (howsmall + int (g 0) mod (howbig - howsmall), \<lambda>i. g (Suc i)))"

text \<open>A concrete generator, for running the functions: the one that delivers the raw
  number \<open>k\<close> at every draw.\<close>

definition constant_rng :: "nat \<Rightarrow> rng" where
  "constant_rng k = (\<lambda>i. k)"

subsection \<open>Selecting a duration\<close>

text \<open>
  \<^verbatim>\<open>
  int defineNoteDuration (float totalAcc){
    if (totalAcc > 0.5 and totalAcc < 0.75) return noteDuration[random(18, 19)];
    if (totalAcc > 0.75 and totalAcc < 3) return noteDuration[random(10, 18)];
    return noteDuration[random(0, 10)];
  }
  \<close>
  Every index comes from \<open>random_range\<close> with constant bounds inside the table, so the
  read is the list access at that index.
\<close>

definition defineNoteDuration :: "real \<Rightarrow> rng \<Rightarrow> int \<times> rng" where
  "defineNoteDuration totalAcc g =
     (if totalAcc > 0.5 \<and> totalAcc < 0.75
      then (let (i, g') = random_range 18 19 g in (noteDuration ! nat i, g'))
      else if totalAcc > 0.75 \<and> totalAcc < 3
      then (let (i, g') = random_range 10 18 g in (noteDuration ! nat i, g'))
      else (let (i, g') = random_range 0 10 g in (noteDuration ! nat i, g')))"

subsection \<open>Deriving the melody note\<close>

text \<open>The loop \<^verbatim>\<open>while (pitch > 6) pitch -= 3;\<close> of \<^verbatim>\<open>defineMelodyNote\<close>.\<close>

function pitchLoop :: "int \<Rightarrow> int" where
  "pitchLoop p = (if p > 6 then pitchLoop (p - 3) else p)"
  by pat_completeness auto
termination
  by (relation "measure (\<lambda>p. nat p)") auto

declare pitchLoop.simps [simp del]

text \<open>The same loop with a bound on the number of times its body may run: \<open>None\<close>
  when the bound is used up before the loop condition fails.\<close>

fun pitchLoop_within :: "nat \<Rightarrow> int \<Rightarrow> int option" where
  "pitchLoop_within 0 p = (if p > 6 then None else Some p)"
| "pitchLoop_within (Suc n) p = (if p > 6 then pitchLoop_within n (p - 3) else Some p)"

text \<open>
  \<^verbatim>\<open>
  void defineMelodyNote(float totalAcc, float totalSpin){
    int octave = melodyCurrentNote.octave;
    int pitch = melodyCurrentNote.pitch;

    if (totalAcc < 3) octave -= 1;
    if (totalAcc >= 3) octave += 1;

    if (octave < 0) octave = 5;
    if (octave > 5) octave = 2;

    if (totalSpin < 3) pitch -= random(0, 6);
    if (totalSpin > 4) pitch += random(0, 6);

    if (pitch < 0) pitch = abs(pitch);
    while (pitch > 6) pitch -= 3;

    melodyCurrentNote.pitch = pitch;
    melodyCurrentNote.octave = octave;
    melodyCurrentNote.duration = defineNoteDuration(totalAcc);

    if(totalAcc < 0.5 || totalSpin < 0.5) {
      melodyCurrentNote.pitch = 7;
      melodyCurrentNote.duration = 50;
    }
  }
  \<close>
  The successive values of the local variables are numbered.
\<close>

definition defineMelodyNote :: "real \<Rightarrow> real \<Rightarrow> sketch \<Rightarrow> sketch" where
  "defineMelodyNote totalAcc totalSpin s =
     (let octave0 = octave (melodyCurrentNote s);
          pitch0 = pitch (melodyCurrentNote s);
          octave1 = (if totalAcc < 3 then octave0 - 1 else octave0);
          octave2 = (if totalAcc \<ge> 3 then octave1 + 1 else octave1);
          octave3 = (if octave2 < 0 then 5 else octave2);
          octave4 = (if octave3 > 5 then 2 else octave3);
          (pitch1, g1) =
            (if totalSpin < 3
             then (let (r, g) = random_range 0 6 (rng s) in (pitch0 - r, g))
             else (pitch0, rng s));
          (pitch2, g2) =
            (if totalSpin > 4
             then (let (r, g) = random_range 0 6 g1 in (pitch1 + r, g))
             else (pitch1, g1));
          pitch3 = (if pitch2 < 0 then \<bar>pitch2\<bar> else pitch2);
          pitch4 = pitchLoop pitch3;
          (d, g3) = defineNoteDuration totalAcc g2;
          m = (melodyCurrentNote s)\<lparr> pitch := pitch4, octave := octave4, duration := d \<rparr>;
          m' = (if totalAcc < 0.5 \<or> totalSpin < 0.5
                then m\<lparr> pitch := 7, duration := 50 \<rparr> else m)
      in s\<lparr> melodyCurrentNote := m', rng := g3 \<rparr>)"

subsection \<open>Deriving the bass note\<close>

text \<open>
  \<^verbatim>\<open>
  void defineBassNote(float totalAcc, float totalSpin){
    int harmonics[8][3] = { ... };
    int octave = bassCurrentNote.octave;
    int pitch = bassCurrentNote.pitch;

    if (totalSpin < 3) octave -= 1;
    if (totalSpin >= 3) octave += 1;

    if (octave < 0) octave = 2;
    if (octave > 5) octave = 0;

    bassCurrentNote.pitch = harmonics[melodyCurrentNote.pitch][random(0, 2)];
    bassCurrentNote.octave = octave;
    bassCurrentNote.duration = defineNoteDuration(totalAcc) * 2;

    if(totalAcc < 0.5 || totalSpin < 0.5) {
      bassCurrentNote.pitch = 7;
      bassCurrentNote.duration = 50;
    }
  }
  \<close>
  The local \<^verbatim>\<open>pitch\<close> is read and never used. The result is \<open>None\<close> when the read of
  \<^verbatim>\<open>harmonics\<close> is out of bounds.
\<close>

definition defineBassNote :: "real \<Rightarrow> real \<Rightarrow> sketch \<Rightarrow> sketch option" where
  "defineBassNote totalAcc totalSpin s =
     (let octave0 = octave (bassCurrentNote s);
          octave1 = (if totalSpin < 3 then octave0 - 1 else octave0);
          octave2 = (if totalSpin \<ge> 3 then octave1 + 1 else octave1);
          octave3 = (if octave2 < 0 then 2 else octave2);
          octave4 = (if octave3 > 5 then 0 else octave3);
          (col, g1) = random_range 0 2 (rng s)
      in case harmonics_at (pitch (melodyCurrentNote s)) col of
           None \<Rightarrow> None
         | Some h \<Rightarrow>
             (let (d, g2) = defineNoteDuration totalAcc g1;
                  b = (bassCurrentNote s)\<lparr> pitch := h, octave := octave4, duration := d * 2 \<rparr>;
                  b' = (if totalAcc < 0.5 \<or> totalSpin < 0.5
                        then b\<lparr> pitch := 7, duration := 50 \<rparr> else b)
              in Some (s\<lparr> bassCurrentNote := b', rng := g2 \<rparr>)))"

subsection \<open>Sequences of derivations\<close>

text \<open>
  \<^verbatim>\<open>loop()\<close> derives a new melody note (through \<^verbatim>\<open>playMelodyNote\<close>) or a new bass note
  (through \<^verbatim>\<open>playBassNote\<close>) whenever the duration of the previous one has elapsed, with
  the magnitudes just read from the sensor of that voice. Between two derivations the
  sketch writes \<^verbatim>\<open>is_playing\<close>, the time stamps and the pixel counters only, none of
  which a derivation reads. A run of the sketch therefore shows up here as a finite
  sequence of derivations, each with its two magnitudes, in any order.
\<close>

datatype derivation = Melody real real | Bass real real

fun derive :: "derivation \<Rightarrow> sketch \<Rightarrow> sketch option" where
  "derive (Melody totalAcc totalSpin) s = Some (defineMelodyNote totalAcc totalSpin s)"
| "derive (Bass totalAcc totalSpin) s = defineBassNote totalAcc totalSpin s"

fun derive_all :: "derivation list \<Rightarrow> sketch \<Rightarrow> sketch option" where
  "derive_all [] s = Some s"
| "derive_all (d # ds) s =
     (case derive d s of None \<Rightarrow> None | Some s' \<Rightarrow> derive_all ds s')"

text \<open>The range of the two indices of a note: a column and a row of the scale table
  \<^verbatim>\<open>bb_scale[6][8]\<close>.\<close>

definition note_in_range :: "Note \<Rightarrow> bool" where
  "note_in_range n = (0 \<le> pitch n \<and> pitch n \<le> 7 \<and> 0 \<le> octave n \<and> octave n \<le> 5)"

section \<open>Auxiliary facts\<close>

subsection \<open>The generator and the duration table\<close>

lemma random_range_bounds:
  "lo < hi \<Longrightarrow> lo \<le> fst (random_range lo hi g) \<and> fst (random_range lo hi g) < hi"
proof -
  assume h: "lo < hi"
  then have "0 \<le> int (g 0) mod (hi - lo)" and "int (g 0) mod (hi - lo) < hi - lo"
    by simp_all
  with h show ?thesis by (simp add: random_range_def)
qed

lemma length_noteDuration: "length noteDuration = 20"
  by (simp add: noteDuration_def)

lemma set_noteDuration: "set noteDuration = {125, 250, 500, 1000, 1500}"
  by (auto simp: noteDuration_def)

lemma nth_noteDuration_mem:
  "0 \<le> i \<Longrightarrow> i < 20 \<Longrightarrow> noteDuration ! nat i \<in> set noteDuration"
  by (rule nth_mem) (simp add: noteDuration_def)

lemma defineNoteDuration_mem: "fst (defineNoteDuration a g) \<in> set noteDuration"
  using random_range_bounds [of 18 19 g] random_range_bounds [of 10 18 g]
    random_range_bounds [of 0 10 g]
  by (simp add: defineNoteDuration_def split_beta nth_noteDuration_mem)

subsection \<open>The rectification loop\<close>

lemma pitchLoop_le: "pitchLoop p \<le> 6"
  by (induction p rule: pitchLoop.induct) (simp add: pitchLoop.simps)

lemma pitchLoop_ge: "0 \<le> p \<Longrightarrow> 0 \<le> pitchLoop p"
  by (induction p rule: pitchLoop.induct) (simp add: pitchLoop.simps)

lemma pitchLoop_within_enough:
  "p \<le> 6 + 3 * int n \<Longrightarrow> pitchLoop_within n p = Some (pitchLoop p)"
  by (induction n arbitrary: p) (auto simp: pitchLoop.simps)

subsection \<open>Projections of the melody derivation\<close>

lemma melody_octave_eq:
  "octave (melodyCurrentNote (defineMelodyNote a sp s)) =
     (let oct = octave (melodyCurrentNote s) + (if a < 3 then - 1 else 1)
      in if oct < 0 then 5 else if oct > 5 then 2 else oct)"
  by (simp add: defineMelodyNote_def Let_def split_beta)

lemma melody_pitch_eq:
  "pitch (melodyCurrentNote (defineMelodyNote a sp s)) =
     (if a < 0.5 \<or> sp < 0.5 then 7
      else pitchLoop
        (let j = pitch (melodyCurrentNote s)
                   - (if sp < 3 then fst (random_range 0 6 (rng s)) else 0)
                   + (if sp > 4 then fst (random_range 0 6 (rng s)) else 0)
         in if j < 0 then \<bar>j\<bar> else j))"
  by (simp add: defineMelodyNote_def Let_def split_beta)

lemma melody_override:
  "a < 0.5 \<or> sp < 0.5 \<Longrightarrow>
     pitch (melodyCurrentNote (defineMelodyNote a sp s)) = 7 \<and>
     duration (melodyCurrentNote (defineMelodyNote a sp s)) = 50"
  by (simp add: defineMelodyNote_def Let_def split_beta)

lemma melody_pitch_normal:
  "\<not> (a < 0.5 \<or> sp < 0.5) \<Longrightarrow>
     0 \<le> pitch (melodyCurrentNote (defineMelodyNote a sp s)) \<and>
     pitch (melodyCurrentNote (defineMelodyNote a sp s)) \<le> 6"
  by (simp add: defineMelodyNote_def Let_def split_beta pitchLoop_le pitchLoop_ge)

lemma melody_duration_normal:
  "\<not> (a < 0.5 \<or> sp < 0.5) \<Longrightarrow>
     duration (melodyCurrentNote (defineMelodyNote a sp s)) \<in> set noteDuration"
  by (simp add: defineMelodyNote_def Let_def split_beta defineNoteDuration_mem)

lemma melody_frame_eq:
  "defineMelodyNote a sp s =
     s\<lparr> melodyCurrentNote := (melodyCurrentNote s)
          \<lparr> pitch := pitch (melodyCurrentNote (defineMelodyNote a sp s)),
            octave := octave (melodyCurrentNote (defineMelodyNote a sp s)),
            duration := duration (melodyCurrentNote (defineMelodyNote a sp s)) \<rparr>,
        rng := rng (defineMelodyNote a sp s) \<rparr>"
  by (simp add: defineMelodyNote_def Let_def split_beta)

subsection \<open>Projections of the bass derivation\<close>

lemma bass_returns:
  assumes "0 \<le> pitch (melodyCurrentNote s)" "pitch (melodyCurrentNote s) \<le> 7"
  shows "\<exists>s'. defineBassNote a sp s = Some s'"
proof -
  from random_range_bounds [of 0 2 "rng s"]
  have "0 \<le> fst (random_range 0 2 (rng s))" "fst (random_range 0 2 (rng s)) < 3"
    by simp_all
  with assms obtain h where
    "harmonics_at (pitch (melodyCurrentNote s)) (fst (random_range 0 2 (rng s))) = Some h"
    by (simp add: harmonics_at_def)
  then show ?thesis
    by (simp add: defineBassNote_def Let_def split_beta)
qed

lemma bass_octave_eq:
  "defineBassNote a sp s = Some s' \<Longrightarrow>
   octave (bassCurrentNote s') =
     (let oct = octave (bassCurrentNote s) + (if sp < 3 then - 1 else 1)
      in if oct < 0 then 2 else if oct > 5 then 0 else oct)"
  by (auto simp add: defineBassNote_def Let_def split_beta split: option.splits)

lemma bass_override:
  "a < 0.5 \<or> sp < 0.5 \<Longrightarrow> defineBassNote a sp s = Some s' \<Longrightarrow>
     pitch (bassCurrentNote s') = 7 \<and> duration (bassCurrentNote s') = 50"
  by (auto simp add: defineBassNote_def Let_def split_beta split: option.splits)

lemma bass_duration_normal:
  "\<not> (a < 0.5 \<or> sp < 0.5) \<Longrightarrow> defineBassNote a sp s = Some s' \<Longrightarrow>
     duration (bassCurrentNote s') \<in> (*) 2 ` set noteDuration"
  by (auto simp add: defineBassNote_def Let_def split_beta defineNoteDuration_mem
      mult.commute [of _ 2] split: option.splits)

lemma bass_pitch_normal:
  "\<not> (a < 0.5 \<or> sp < 0.5) \<Longrightarrow> defineBassNote a sp s = Some s' \<Longrightarrow>
     harmonics_at (pitch (melodyCurrentNote s)) (fst (random_range 0 2 (rng s)))
       = Some (pitch (bassCurrentNote s'))"
  by (auto simp add: defineBassNote_def Let_def split_beta split: option.splits)

lemma bass_frame_eq:
  "defineBassNote a sp s = Some s' \<Longrightarrow>
   s' = s\<lparr> bassCurrentNote := (bassCurrentNote s)
          \<lparr> pitch := pitch (bassCurrentNote s'),
            octave := octave (bassCurrentNote s'),
            duration := duration (bassCurrentNote s') \<rparr>,
        rng := rng s' \<rparr>"
  by (auto simp add: defineBassNote_def Let_def split_beta split: option.splits)

subsection \<open>What a derivation leaves alone\<close>

lemma melody_keeps_bass:
  "bassCurrentNote (defineMelodyNote a sp s) = bassCurrentNote s"
  by (simp add: defineMelodyNote_def Let_def split_beta)

lemma bass_keeps_melody:
  "defineBassNote a sp s = Some s' \<Longrightarrow> melodyCurrentNote s' = melodyCurrentNote s"
  by (auto simp add: defineBassNote_def Let_def split_beta split: option.splits)

subsection \<open>The range of the melody note along a run\<close>

lemma melody_note_in_range:
  "note_in_range (melodyCurrentNote (defineMelodyNote a sp s))"
proof (cases "a < 0.5 \<or> sp < 0.5")
  case True
  then show ?thesis
    using melody_override [of a sp s] melody_octave_eq [of a sp s]
    by (simp add: note_in_range_def Let_def)
next
  case False
  then show ?thesis
    using melody_pitch_normal [of a sp s] melody_octave_eq [of a sp s]
    by (simp add: note_in_range_def Let_def)
qed

lemma derive_keeps_range:
  assumes "note_in_range (melodyCurrentNote s)"
  shows "\<exists>s'. derive d s = Some s' \<and> note_in_range (melodyCurrentNote s')"
proof (cases d)
  case (Melody a sp)
  then show ?thesis by (simp add: melody_note_in_range)
next
  case (Bass a sp)
  from assms obtain s' where "defineBassNote a sp s = Some s'"
    using bass_returns [of s a sp] by (auto simp: note_in_range_def)
  with assms Bass show ?thesis
    by (simp add: bass_keeps_melody)
qed

lemma derive_all_keeps_range:
  "note_in_range (melodyCurrentNote s) \<Longrightarrow>
     \<exists>s'. derive_all ds s = Some s' \<and> note_in_range (melodyCurrentNote s')"
proof (induction ds arbitrary: s)
  case Nil
  then show ?case by simp
next
  case (Cons d ds)
  from derive_keeps_range [OF Cons.prems, of d] obtain s1 where
    s1: "derive d s = Some s1" "note_in_range (melodyCurrentNote s1)" by blast
  from Cons.IH [OF s1(2)] s1(1) show ?case by simp
qed

subsection \<open>The rows of the harmonic table\<close>

text \<open>In the initial state the melody pitch is 0 and the row of the bass is \<open>2, 4, 6\<close>.
  The raw number 0 selects column 0 and the raw number 1 selects column 1.\<close>

lemma bass_pitch_columns_0_and_1:
  "map_option (pitch \<circ> bassCurrentNote)
     (defineBassNote 1 1 (initial_sketch (constant_rng 0))) = Some 2
   \<and> map_option (pitch \<circ> bassCurrentNote)
     (defineBassNote 1 1 (initial_sketch (constant_rng 1))) = Some 4"
  by (simp add: defineBassNote_def defineNoteDuration_def random_range_def constant_rng_def
      initial_sketch_def harmonics_at_def harmonics_def)

text \<open>The three entries of a row are distinct.\<close>

lemma harmonics_rows:
  assumes "0 \<le> row" "row \<le> 7"
  shows "\<exists>x y z. harmonics_at row 0 = Some x \<and> harmonics_at row 1 = Some y
           \<and> harmonics_at row 2 = Some z \<and> x \<noteq> z \<and> y \<noteq> z \<and> x \<noteq> y"
proof -
  from assms have "row = 0 \<or> row = 1 \<or> row = 2 \<or> row = 3 \<or> row = 4 \<or> row = 5 \<or> row = 6 \<or> row = 7"
    by arith
  then show ?thesis
    by (elim disjE) (simp_all add: harmonics_at_def harmonics_def)
qed

section \<open>The claims\<close>

subsection \<open>C1: near-stillness mutes the voice\<close>

text \<open>
  Claim C1. Whenever \<open>totalAcc < 0.5\<close> or \<open>totalSpin < 0.5\<close>, whatever the prior notes
  and whatever the generator delivers, \<open>defineMelodyNote\<close> leaves the melody note with
  pitch 7 and duration 50, and so does \<open>defineBassNote\<close> with the bass note. The bass
  derivation first reads the harmonic table at the row of the melody pitch: every result
  it returns has pitch 7 and duration 50, and it does return one when that row exists,
  that is, when the melody pitch is between 0 and 7, as it always is in the sketch.
\<close>

theorem near_stillness_override:
  assumes "totalAcc < 0.5 \<or> totalSpin < 0.5"
  shows "pitch (melodyCurrentNote (defineMelodyNote totalAcc totalSpin s)) = 7
       \<and> duration (melodyCurrentNote (defineMelodyNote totalAcc totalSpin s)) = 50
       \<and> (\<forall>s'. defineBassNote totalAcc totalSpin s = Some s' \<longrightarrow>
             pitch (bassCurrentNote s') = 7 \<and> duration (bassCurrentNote s') = 50)
       \<and> (0 \<le> pitch (melodyCurrentNote s) \<and> pitch (melodyCurrentNote s) \<le> 7 \<longrightarrow>
             (\<exists>s'. defineBassNote totalAcc totalSpin s = Some s'))"
  using assms melody_override [of totalAcc totalSpin s] bass_override [of totalAcc totalSpin s]
    bass_returns [of s totalAcc totalSpin]
  by blast

text \<open>The theorem at \<open>totalAcc = 0.25\<close>, \<open>totalSpin = 1\<close> in the initial state.\<close>

theorem near_stillness_override_witness:
  "((1/4 :: real) < 0.5 \<or> (1 :: real) < 0.5)
   \<and> pitch (melodyCurrentNote (defineMelodyNote (1/4) 1 (initial_sketch (constant_rng 0)))) = 7
   \<and> duration (melodyCurrentNote (defineMelodyNote (1/4) 1 (initial_sketch (constant_rng 0)))) = 50
   \<and> (\<exists>s'. defineBassNote (1/4) 1 (initial_sketch (constant_rng 0)) = Some s'
          \<and> pitch (bassCurrentNote s') = 7 \<and> duration (bassCurrentNote s') = 50)"
proof -
  have h: "(1/4 :: real) < 0.5 \<or> (1 :: real) < 0.5" by simp
  have r: "0 \<le> pitch (melodyCurrentNote (initial_sketch (constant_rng 0)))
         \<and> pitch (melodyCurrentNote (initial_sketch (constant_rng 0))) \<le> 7"
    by (simp add: initial_sketch_def)
  from near_stillness_override [OF h, of "initial_sketch (constant_rng 0)"] r h
  show ?thesis by blast
qed

subsection \<open>C2: the band of the duration table\<close>

text \<open>
  Claim C2. For every \<open>totalAcc \<ge> 0\<close> and every generator, \<open>defineNoteDuration\<close> returns
  the entry of the 20-entry duration table at the index \<open>i\<close> it has drawn, where \<open>i\<close> is
  in \<open>[18,19)\<close> when \<open>0.5 < totalAcc < 0.75\<close>, in \<open>[10,18)\<close> when \<open>0.75 < totalAcc < 3\<close>,
  and in \<open>[0,10)\<close> otherwise; the boundary values 0.5, 0.75 and 3 are in the last case.
  (The conclusion does not depend on the lower bound of \<open>totalAcc\<close>.)
\<close>

theorem defineNoteDuration_band:
  assumes "0 \<le> totalAcc"
  shows "\<exists>i g'. defineNoteDuration totalAcc g = (noteDuration ! nat i, g')
           \<and> (i, g') = (if 0.5 < totalAcc \<and> totalAcc < 0.75 then random_range 18 19 g
                        else if 0.75 < totalAcc \<and> totalAcc < 3 then random_range 10 18 g
                        else random_range 0 10 g)
           \<and> (if 0.5 < totalAcc \<and> totalAcc < 0.75 then 18 \<le> i \<and> i < 19
               else if 0.75 < totalAcc \<and> totalAcc < 3 then 10 \<le> i \<and> i < 18
               else 0 \<le> i \<and> i < 10)
           \<and> (totalAcc = 0.5 \<or> totalAcc = 0.75 \<or> totalAcc = 3 \<longrightarrow> 0 \<le> i \<and> i < 10)
           \<and> nat i < length noteDuration
           \<and> noteDuration ! nat i \<in> set noteDuration"
proof -
  define r where
    "r = (if 0.5 < totalAcc \<and> totalAcc < 0.75 then random_range 18 19 g
          else if 0.75 < totalAcc \<and> totalAcc < 3 then random_range 10 18 g
          else random_range 0 10 g)"
  have eq: "defineNoteDuration totalAcc g = (noteDuration ! nat (fst r), snd r)"
    by (simp add: r_def defineNoteDuration_def split_beta)
  have band: "if 0.5 < totalAcc \<and> totalAcc < 0.75 then 18 \<le> fst r \<and> fst r < 19
              else if 0.75 < totalAcc \<and> totalAcc < 3 then 10 \<le> fst r \<and> fst r < 18
              else 0 \<le> fst r \<and> fst r < 10"
    using random_range_bounds [of 18 19 g] random_range_bounds [of 10 18 g]
      random_range_bounds [of 0 10 g]
    by (simp add: r_def)
  have "r = random_range 18 19 g \<or> r = random_range 10 18 g \<or> r = random_range 0 10 g"
    by (simp add: r_def)
  then have range: "0 \<le> fst r \<and> fst r < 20"
    using random_range_bounds [of 18 19 g] random_range_bounds [of 10 18 g]
      random_range_bounds [of 0 10 g]
    by auto
  have bnd: "totalAcc = 0.5 \<or> totalAcc = 0.75 \<or> totalAcc = 3 \<longrightarrow> 0 \<le> fst r \<and> fst r < 10"
    using random_range_bounds [of 0 10 g] by (auto simp: r_def)
  have len: "nat (fst r) < length noteDuration"
    using range unfolding length_noteDuration by linarith
  have mem: "noteDuration ! nat (fst r) \<in> set noteDuration"
    using len by (rule nth_mem)
  have "(fst r, snd r) = r"
    by simp
  with eq band bnd len mem show ?thesis
    unfolding r_def [symmetric] by blast
qed

text \<open>The theorem at the boundary value \<open>totalAcc = 0.75\<close>: the raw number 13 selects
  index 3 of the band \<open>[0,10)\<close>, a duration of 125.\<close>

theorem defineNoteDuration_band_witness:
  "(0 :: real) \<le> 0.75
   \<and> (\<exists>i g'. defineNoteDuration 0.75 (constant_rng 13) = (noteDuration ! nat i, g')
         \<and> 0 \<le> i \<and> i < 10)
   \<and> fst (defineNoteDuration 0.75 (constant_rng 13)) = 125"
proof -
  have h: "(0 :: real) \<le> 0.75" by simp
  have v: "fst (defineNoteDuration 0.75 (constant_rng 13)) = 125"
    by (simp add: defineNoteDuration_def random_range_def constant_rng_def noteDuration_def)
  from defineNoteDuration_band [OF h, of "constant_rng 13"] h v
  show ?thesis by auto
qed

subsection \<open>C3: the band of the long durations\<close>

text \<open>
  Claim C3, as amended. For every \<open>totalAcc\<close> with \<open>0.5 < totalAcc < 0.75\<close>,
  \<open>defineNoteDuration\<close> returns an entry of the last band of the duration table, the
  indices 18 and 19, hence one of the long durations 1000 and 1500.
\<close>

theorem long_band_duration:
  assumes "0.5 < totalAcc" "totalAcc < 0.75"
  shows "\<exists>i. fst (defineNoteDuration totalAcc g) = noteDuration ! nat i
           \<and> 18 \<le> i \<and> i \<le> 19
           \<and> (noteDuration ! nat i = 1000 \<or> noteDuration ! nat i = 1500)"
proof -
  have "fst (random_range 18 19 g) = 18"
    using random_range_bounds [of 18 19 g] by simp
  with assms have "fst (defineNoteDuration totalAcc g) = noteDuration ! nat 18"
    by (simp add: defineNoteDuration_def split_beta)
  moreover have "noteDuration ! nat 18 = 1000"
    by (simp add: noteDuration_def)
  ultimately show ?thesis by (intro exI [of _ 18]) simp
qed

text \<open>The theorem at \<open>totalAcc = 0.625\<close>.\<close>

theorem long_band_duration_witness:
  "(0.5 < (5/8 :: real) \<and> (5/8 :: real) < 0.75)
   \<and> (\<exists>i. fst (defineNoteDuration (5/8) (constant_rng 0)) = noteDuration ! nat i
          \<and> 18 \<le> i \<and> i \<le> 19
          \<and> (noteDuration ! nat i = 1000 \<or> noteDuration ! nat i = 1500))"
proof -
  have h1: "0.5 < (5/8 :: real)" and h2: "(5/8 :: real) < 0.75" by simp_all
  from long_band_duration [OF h1 h2, of "constant_rng 0"] h1 h2
  show ?thesis by blast
qed

text \<open>
  The claim as it was stated promises the duration 1500 in this band. At
  \<open>totalAcc = 0.625\<close> the draw \<^verbatim>\<open>random(18, 19)\<close> yields index 18, where the table holds
  1000.
\<close>

theorem long_band_always_1500_counterexample:
  "(0.5 < (5/8 :: real) \<and> (5/8 :: real) < 0.75)
   \<and> fst (defineNoteDuration (5/8) (constant_rng 0)) = 1000
   \<and> fst (defineNoteDuration (5/8) (constant_rng 0)) \<noteq> 1500"
  by (simp add: defineNoteDuration_def random_range_def constant_rng_def noteDuration_def)

subsection \<open>C4: the bass pitch and the harmonic table\<close>

text \<open>
  Claim C4 says that an unsilenced bass derivation looks its pitch up in the row of the
  harmonic table given by the melody pitch, at a random column out of 0, 1 and 2, each
  of the three entries being possible. What the code does: the column is
  \<^verbatim>\<open>random(0, 2)\<close>, which is 0 or 1. For every melody pitch from 0 to 7, every generator
  and every pair of magnitudes outside the override, the derivation returns, its pitch
  is the entry of that row in column 0 or in column 1, and it is never the entry in
  column 2.
\<close>

theorem bass_pitch_from_two_columns:
  assumes "0 \<le> pitch (melodyCurrentNote s) \<and> pitch (melodyCurrentNote s) \<le> 7"
      and "\<not> (totalAcc < 0.5 \<or> totalSpin < 0.5)"
  shows "\<exists>s'. defineBassNote totalAcc totalSpin s = Some s'
           \<and> (harmonics_at (pitch (melodyCurrentNote s)) 0 = Some (pitch (bassCurrentNote s'))
              \<or> harmonics_at (pitch (melodyCurrentNote s)) 1 = Some (pitch (bassCurrentNote s')))
           \<and> harmonics_at (pitch (melodyCurrentNote s)) 2 \<noteq> Some (pitch (bassCurrentNote s'))"
proof -
  from assms(1) obtain s' where s': "defineBassNote totalAcc totalSpin s = Some s'"
    using bass_returns [of s totalAcc totalSpin] by blast
  have "0 \<le> fst (random_range 0 2 (rng s)) \<and> fst (random_range 0 2 (rng s)) < 2"
    using random_range_bounds [of 0 2 "rng s"] by simp
  then have col: "fst (random_range 0 2 (rng s)) = 0 \<or> fst (random_range 0 2 (rng s)) = 1"
    by arith
  from bass_pitch_normal [OF assms(2) s']
  have p: "harmonics_at (pitch (melodyCurrentNote s)) (fst (random_range 0 2 (rng s)))
       = Some (pitch (bassCurrentNote s'))" .
  from assms(1) harmonics_rows [of "pitch (melodyCurrentNote s)"]
  obtain x y z where r: "harmonics_at (pitch (melodyCurrentNote s)) 0 = Some x"
    "harmonics_at (pitch (melodyCurrentNote s)) 1 = Some y"
    "harmonics_at (pitch (melodyCurrentNote s)) 2 = Some z" "x \<noteq> z" "y \<noteq> z"
    by blast
  from col p r have "(harmonics_at (pitch (melodyCurrentNote s)) 0 = Some (pitch (bassCurrentNote s'))
              \<or> harmonics_at (pitch (melodyCurrentNote s)) 1 = Some (pitch (bassCurrentNote s')))
           \<and> harmonics_at (pitch (melodyCurrentNote s)) 2 \<noteq> Some (pitch (bassCurrentNote s'))"
    by auto
  with s' show ?thesis by blast
qed

text \<open>In the initial state the melody pitch is 0 and the row is \<open>2, 4, 6\<close>: with
  \<open>totalAcc = totalSpin = 1\<close> the bass pitch is 2 or 4 whatever the generator delivers,
  and the third candidate is 6.\<close>

theorem bass_pitch_from_two_columns_witness:
  "\<forall>g. (0 \<le> pitch (melodyCurrentNote (initial_sketch g))
         \<and> pitch (melodyCurrentNote (initial_sketch g)) \<le> 7)
      \<and> \<not> ((1 :: real) < 0.5 \<or> (1 :: real) < 0.5)
      \<and> (\<exists>s'. defineBassNote 1 1 (initial_sketch g) = Some s'
            \<and> (pitch (bassCurrentNote s') = 2 \<or> pitch (bassCurrentNote s') = 4)
            \<and> pitch (bassCurrentNote s') \<noteq> 6)
      \<and> harmonics_at 0 2 = Some 6"
proof
  fix g
  have r: "0 \<le> pitch (melodyCurrentNote (initial_sketch g))
         \<and> pitch (melodyCurrentNote (initial_sketch g)) \<le> 7"
    by (simp add: initial_sketch_def)
  have n: "\<not> ((1 :: real) < 0.5 \<or> (1 :: real) < 0.5)"
    by simp
  have p: "pitch (melodyCurrentNote (initial_sketch g)) = 0"
    by (simp add: initial_sketch_def)
  have h: "harmonics_at 0 0 = Some 2" "harmonics_at 0 1 = Some 4" "harmonics_at 0 2 = Some 6"
    by (simp_all add: harmonics_at_def harmonics_def)
  from bass_pitch_from_two_columns [OF r n]
  show "(0 \<le> pitch (melodyCurrentNote (initial_sketch g))
         \<and> pitch (melodyCurrentNote (initial_sketch g)) \<le> 7)
      \<and> \<not> ((1 :: real) < 0.5 \<or> (1 :: real) < 0.5)
      \<and> (\<exists>s'. defineBassNote 1 1 (initial_sketch g) = Some s'
            \<and> (pitch (bassCurrentNote s') = 2 \<or> pitch (bassCurrentNote s') = 4)
            \<and> pitch (bassCurrentNote s') \<noteq> 6)
      \<and> harmonics_at 0 2 = Some 6"
    using r n unfolding p h by auto
qed

subsection \<open>C5: the two octave wraps\<close>

text \<open>
  Claim C5. The octave of a voice is stepped by \<open>-1\<close> or \<open>+1\<close> and then wrapped. In
  \<open>defineMelodyNote\<close> a stepped octave below 0 becomes 5 and one above 5 becomes 2; in
  \<open>defineBassNote\<close> a stepped octave below 0 becomes 2 and one above 5 becomes 0.
\<close>

theorem octave_wraps:
  "(octave (melodyCurrentNote s) + (if totalAcc < 3 then - 1 else 1) < 0 \<longrightarrow>
      octave (melodyCurrentNote (defineMelodyNote totalAcc totalSpin s)) = 5)
   \<and> (octave (melodyCurrentNote s) + (if totalAcc < 3 then - 1 else 1) > 5 \<longrightarrow>
      octave (melodyCurrentNote (defineMelodyNote totalAcc totalSpin s)) = 2)
   \<and> (\<forall>s'. defineBassNote totalAcc totalSpin s = Some s' \<longrightarrow>
        (octave (bassCurrentNote s) + (if totalSpin < 3 then - 1 else 1) < 0 \<longrightarrow>
           octave (bassCurrentNote s') = 2)
        \<and> (octave (bassCurrentNote s) + (if totalSpin < 3 then - 1 else 1) > 5 \<longrightarrow>
           octave (bassCurrentNote s') = 0))"
proof -
  have m: "octave (melodyCurrentNote (defineMelodyNote totalAcc totalSpin s)) =
           (let oct = octave (melodyCurrentNote s) + (if totalAcc < 3 then - 1 else 1)
            in if oct < 0 then 5 else if oct > 5 then 2 else oct)"
    by (rule melody_octave_eq)
  have b: "octave (bassCurrentNote s') =
               (let oct = octave (bassCurrentNote s) + (if totalSpin < 3 then - 1 else 1)
                in if oct < 0 then 2 else if oct > 5 then 0 else oct)"
    if "defineBassNote totalAcc totalSpin s = Some s'" for s'
    using bass_octave_eq [OF that] .
  show ?thesis
    using m b by (simp add: Let_def)
qed

text \<open>Each of the four wraps at a concrete input: octave 0 stepped down and octave 5
  stepped up, for either voice. The melody wraps \<open>-1\<close> to 5 and 6 to 2, the bass wraps
  \<open>-1\<close> to 2 and 6 to 0; a reduction modulo 6 would give 5 and 0.\<close>

theorem octave_wraps_witness:
  "octave (melodyCurrentNote (defineMelodyNote 1 1
      ((initial_sketch (constant_rng 0))
        \<lparr> melodyCurrentNote := \<lparr> pitch = 0, octave = 0, duration = 0, is_playing = False \<rparr> \<rparr>)))
     = 5
   \<and> octave (melodyCurrentNote (defineMelodyNote 3 1
      ((initial_sketch (constant_rng 0))
        \<lparr> melodyCurrentNote := \<lparr> pitch = 0, octave = 5, duration = 0, is_playing = False \<rparr> \<rparr>)))
     = 2
   \<and> (\<exists>s'. defineBassNote 1 1 (initial_sketch (constant_rng 0)) = Some s'
          \<and> octave (bassCurrentNote s') = 2)
   \<and> (\<exists>s'. defineBassNote 1 3
          ((initial_sketch (constant_rng 0))
            \<lparr> bassCurrentNote := \<lparr> pitch = 0, octave = 5, duration = 0, is_playing = False \<rparr> \<rparr>)
          = Some s'
          \<and> octave (bassCurrentNote s') = 0)"
proof -
  let ?m0 = "(initial_sketch (constant_rng 0))
        \<lparr> melodyCurrentNote := \<lparr> pitch = 0, octave = 0, duration = 0, is_playing = False \<rparr> \<rparr>"
  let ?m5 = "(initial_sketch (constant_rng 0))
        \<lparr> melodyCurrentNote := \<lparr> pitch = 0, octave = 5, duration = 0, is_playing = False \<rparr> \<rparr>"
  let ?b0 = "initial_sketch (constant_rng 0)"
  let ?b5 = "(initial_sketch (constant_rng 0))
        \<lparr> bassCurrentNote := \<lparr> pitch = 0, octave = 5, duration = 0, is_playing = False \<rparr> \<rparr>"
  have a: "octave (melodyCurrentNote (defineMelodyNote 1 1 ?m0)) = 5"
    using octave_wraps [of ?m0 1 1] by (simp add: initial_sketch_def)
  have b: "octave (melodyCurrentNote (defineMelodyNote 3 1 ?m5)) = 2"
    using octave_wraps [of ?m5 3 1] by (simp add: initial_sketch_def)
  obtain s0 where s0: "defineBassNote 1 1 ?b0 = Some s0"
    using bass_returns [of ?b0 1 1] by (auto simp: initial_sketch_def)
  have c: "octave (bassCurrentNote s0) = 2"
    using octave_wraps [of ?b0 1 1] s0 by (simp add: initial_sketch_def)
  obtain s5 where s5: "defineBassNote 1 3 ?b5 = Some s5"
    using bass_returns [of ?b5 1 3] by (auto simp: initial_sketch_def)
  have d: "octave (bassCurrentNote s5) = 0"
    using octave_wraps [of ?b5 1 3] s5 by (simp add: initial_sketch_def)
  from a b c d s0 s5 show ?thesis by blast
qed

subsection \<open>C6: the range of the melody note\<close>

text \<open>
  Claim C6. If the melody note has its pitch in \<open>[0,7]\<close> and its octave in \<open>[0,5]\<close>,
  then after \<open>defineMelodyNote\<close>, for all magnitudes and every generator, the pitch is 7
  when the override fires and in \<open>[0,6]\<close> when it does not, and the octave is in
  \<open>[0,5]\<close>. Hence along every sequence of derivations, of either voice, every derivation
  returns and the melody note keeps its pitch in \<open>[0,7]\<close> and its octave in \<open>[0,5]\<close>.
\<close>

theorem melody_range_invariant:
  assumes "0 \<le> pitch (melodyCurrentNote s) \<and> pitch (melodyCurrentNote s) \<le> 7"
      and "0 \<le> octave (melodyCurrentNote s) \<and> octave (melodyCurrentNote s) \<le> 5"
  shows "(if totalAcc < 0.5 \<or> totalSpin < 0.5
          then pitch (melodyCurrentNote (defineMelodyNote totalAcc totalSpin s)) = 7
          else 0 \<le> pitch (melodyCurrentNote (defineMelodyNote totalAcc totalSpin s))
             \<and> pitch (melodyCurrentNote (defineMelodyNote totalAcc totalSpin s)) \<le> 6)
       \<and> 0 \<le> octave (melodyCurrentNote (defineMelodyNote totalAcc totalSpin s))
       \<and> octave (melodyCurrentNote (defineMelodyNote totalAcc totalSpin s)) \<le> 5
       \<and> (\<exists>s'. derive_all ds s = Some s'
              \<and> 0 \<le> pitch (melodyCurrentNote s') \<and> pitch (melodyCurrentNote s') \<le> 7
              \<and> 0 \<le> octave (melodyCurrentNote s') \<and> octave (melodyCurrentNote s') \<le> 5)"
proof -
  have step: "if totalAcc < 0.5 \<or> totalSpin < 0.5
          then pitch (melodyCurrentNote (defineMelodyNote totalAcc totalSpin s)) = 7
          else 0 \<le> pitch (melodyCurrentNote (defineMelodyNote totalAcc totalSpin s))
             \<and> pitch (melodyCurrentNote (defineMelodyNote totalAcc totalSpin s)) \<le> 6"
    using melody_override [of totalAcc totalSpin s] melody_pitch_normal [of totalAcc totalSpin s]
    by (cases "totalAcc < 0.5 \<or> totalSpin < 0.5") simp_all
  have oct: "0 \<le> octave (melodyCurrentNote (defineMelodyNote totalAcc totalSpin s))
       \<and> octave (melodyCurrentNote (defineMelodyNote totalAcc totalSpin s)) \<le> 5"
    using melody_note_in_range [of totalAcc totalSpin s] by (simp add: note_in_range_def)
  from assms have "note_in_range (melodyCurrentNote s)"
    by (simp add: note_in_range_def)
  from derive_all_keeps_range [OF this, of ds]
  have run: "\<exists>s'. derive_all ds s = Some s'
              \<and> 0 \<le> pitch (melodyCurrentNote s') \<and> pitch (melodyCurrentNote s') \<le> 7
              \<and> 0 \<le> octave (melodyCurrentNote s') \<and> octave (melodyCurrentNote s') \<le> 5"
    by (simp add: note_in_range_def)
  from step oct run show ?thesis by blast
qed

text \<open>The theorem in the initial state, for a derivation with \<open>totalAcc = 4\<close> and
  \<open>totalSpin = 5\<close> and for a run of three derivations.\<close>

theorem melody_range_invariant_witness:
  "(0 \<le> pitch (melodyCurrentNote (initial_sketch (constant_rng 4)))
      \<and> pitch (melodyCurrentNote (initial_sketch (constant_rng 4))) \<le> 7)
   \<and> (0 \<le> octave (melodyCurrentNote (initial_sketch (constant_rng 4)))
      \<and> octave (melodyCurrentNote (initial_sketch (constant_rng 4))) \<le> 5)
   \<and> 0 \<le> pitch (melodyCurrentNote (defineMelodyNote 4 5 (initial_sketch (constant_rng 4))))
   \<and> pitch (melodyCurrentNote (defineMelodyNote 4 5 (initial_sketch (constant_rng 4)))) \<le> 6
   \<and> 0 \<le> octave (melodyCurrentNote (defineMelodyNote 4 5 (initial_sketch (constant_rng 4))))
   \<and> octave (melodyCurrentNote (defineMelodyNote 4 5 (initial_sketch (constant_rng 4)))) \<le> 5
   \<and> (\<exists>s'. derive_all [Melody 4 5, Bass 1 1, Melody (1/4) 1] (initial_sketch (constant_rng 4))
            = Some s'
          \<and> 0 \<le> pitch (melodyCurrentNote s') \<and> pitch (melodyCurrentNote s') \<le> 7
          \<and> 0 \<le> octave (melodyCurrentNote s') \<and> octave (melodyCurrentNote s') \<le> 5)"
proof -
  have p: "0 \<le> pitch (melodyCurrentNote (initial_sketch (constant_rng 4)))
      \<and> pitch (melodyCurrentNote (initial_sketch (constant_rng 4))) \<le> 7"
    by (simp add: initial_sketch_def)
  have q: "0 \<le> octave (melodyCurrentNote (initial_sketch (constant_rng 4)))
      \<and> octave (melodyCurrentNote (initial_sketch (constant_rng 4))) \<le> 5"
    by (simp add: initial_sketch_def)
  have n: "\<not> ((4 :: real) < 0.5 \<or> (5 :: real) < 0.5)"
    by simp
  from melody_range_invariant [OF p q, of 4 5 "[Melody 4 5, Bass 1 1, Melody (1/4) 1]"] p q n
  show ?thesis by simp
qed

subsection \<open>C7: the rectification of the pitch\<close>

text \<open>
  Claim C7. Let the melody note have a prior pitch in \<open>[0,7]\<close>. The jittered pitch of
  \<open>defineMelodyNote\<close> is that pitch minus the value drawn by \<^verbatim>\<open>random(0, 6)\<close> if
  \<open>totalSpin < 3\<close>, plus the value drawn by \<^verbatim>\<open>random(0, 6)\<close> if \<open>totalSpin > 4\<close>; the
  two guards exclude each other, so the draw is the first one of the generator in
  either case. For all magnitudes and every generator the jittered pitch is in
  \<open>[-5,12]\<close>, its rectification (the absolute value if negative, then subtracting 3 as
  long as the value is above 6) terminates, the loop body running at most twice, and
  yields a value in \<open>[0,6]\<close>; that value is the pitch \<open>defineMelodyNote\<close> leaves in the
  melody note, unless the near-stillness override replaces it by 7.
\<close>

theorem pitch_rectification_terminates:
  assumes "0 \<le> pitch (melodyCurrentNote s) \<and> pitch (melodyCurrentNote s) \<le> 7"
  shows "\<exists>jittered rectified.
           jittered = pitch (melodyCurrentNote s)
                        - (if totalSpin < 3 then fst (random_range 0 6 (rng s)) else 0)
                        + (if totalSpin > 4 then fst (random_range 0 6 (rng s)) else 0)
           \<and> - 5 \<le> jittered \<and> jittered \<le> 12
           \<and> pitchLoop_within 2 (if jittered < 0 then \<bar>jittered\<bar> else jittered) = Some rectified
           \<and> 0 \<le> rectified \<and> rectified \<le> 6
           \<and> pitch (melodyCurrentNote (defineMelodyNote totalAcc totalSpin s)) =
               (if totalAcc < 0.5 \<or> totalSpin < 0.5 then 7 else rectified)"
proof -
  define j where
    "j = pitch (melodyCurrentNote s)
           - (if totalSpin < 3 then fst (random_range 0 6 (rng s)) else 0)
           + (if totalSpin > 4 then fst (random_range 0 6 (rng s)) else 0)"
  define p where "p = (if j < 0 then \<bar>j\<bar> else j)"
  have r: "0 \<le> fst (random_range 0 6 (rng s)) \<and> fst (random_range 0 6 (rng s)) < 6"
    using random_range_bounds [of 0 6 "rng s"] by simp
  with assms have range: "- 5 \<le> j \<and> j \<le> 12"
    by (simp add: j_def)
  then have "p \<le> 6 + 3 * int 2"
    by (simp add: p_def)
  then have w: "pitchLoop_within 2 p = Some (pitchLoop p)"
    by (rule pitchLoop_within_enough)
  have q: "0 \<le> pitchLoop p \<and> pitchLoop p \<le> 6"
    by (simp add: p_def pitchLoop_le pitchLoop_ge)
  have e: "pitch (melodyCurrentNote (defineMelodyNote totalAcc totalSpin s)) =
               (if totalAcc < 0.5 \<or> totalSpin < 0.5 then 7 else pitchLoop p)"
    unfolding p_def j_def by (simp add: melody_pitch_eq Let_def)
  from range w q e show ?thesis
    unfolding p_def j_def by blast
qed

text \<open>The theorem at the largest jittered pitch: a prior pitch of 7,
  \<open>totalSpin = 5\<close> and a drawn value of 5 give \<open>7 + 5\<close>, which takes the two iterations
  and ends at 6.\<close>

theorem pitch_rectification_terminates_witness:
  "(0 \<le> pitch (melodyCurrentNote ((initial_sketch (constant_rng 5))
        \<lparr> melodyCurrentNote := \<lparr> pitch = 7, octave = 3, duration = 50, is_playing = True \<rparr> \<rparr>))
    \<and> pitch (melodyCurrentNote ((initial_sketch (constant_rng 5))
        \<lparr> melodyCurrentNote := \<lparr> pitch = 7, octave = 3, duration = 50, is_playing = True \<rparr> \<rparr>)) \<le> 7)
   \<and> pitchLoop_within 2 (7 + 5) = Some 6
   \<and> pitch (melodyCurrentNote (defineMelodyNote 4 5 ((initial_sketch (constant_rng 5))
        \<lparr> melodyCurrentNote := \<lparr> pitch = 7, octave = 3, duration = 50, is_playing = True \<rparr> \<rparr>)))
       = 6"
proof -
  let ?s = "(initial_sketch (constant_rng 5))
        \<lparr> melodyCurrentNote := \<lparr> pitch = 7, octave = 3, duration = 50, is_playing = True \<rparr> \<rparr>"
  have h: "0 \<le> pitch (melodyCurrentNote ?s) \<and> pitch (melodyCurrentNote ?s) \<le> 7"
    by (simp add: initial_sketch_def)
  have d: "fst (random_range 0 6 (rng ?s)) = 5"
    by (simp add: random_range_def initial_sketch_def constant_rng_def)
  have p: "pitch (melodyCurrentNote ?s) = 7"
    by (simp add: initial_sketch_def)
  have n: "\<not> ((4 :: real) < 0.5 \<or> (5 :: real) < 0.5)" "\<not> (5 :: real) < 3" "(5 :: real) > 4"
    by simp_all
  have w: "pitchLoop_within 2 (7 + 5) = Some 6"
    by (simp add: numeral_2_eq_2)
  from pitch_rectification_terminates [OF h, of 5 4]
  have "pitch (melodyCurrentNote (defineMelodyNote 4 5 ?s)) = 6"
    unfolding d p using n w by simp
  with h w show ?thesis by simp
qed

subsection \<open>C8: the duration of a derived note\<close>

text \<open>
  Claim C8, as amended. After a \<open>defineMelodyNote\<close> in which the near-stillness override
  does not fire, the duration of the melody note is a value of the duration table, and
  after such a \<open>defineBassNote\<close> the duration of the bass note is a value of the table
  doubled. When the override fires the duration is 50, which is neither. (The bass
  derivation returns whenever the melody pitch is in \<open>[0,7]\<close>.)
\<close>

theorem duration_after_derivation:
  assumes "0 \<le> pitch (melodyCurrentNote s) \<and> pitch (melodyCurrentNote s) \<le> 7"
  shows "(if totalAcc < 0.5 \<or> totalSpin < 0.5
          then duration (melodyCurrentNote (defineMelodyNote totalAcc totalSpin s)) = 50
          else duration (melodyCurrentNote (defineMelodyNote totalAcc totalSpin s))
                 \<in> set noteDuration)
       \<and> (\<exists>s'. defineBassNote totalAcc totalSpin s = Some s'
             \<and> (if totalAcc < 0.5 \<or> totalSpin < 0.5
                 then duration (bassCurrentNote s') = 50
                 else duration (bassCurrentNote s') \<in> (*) 2 ` set noteDuration))
       \<and> 50 \<notin> set noteDuration \<and> 50 \<notin> (*) 2 ` set noteDuration"
proof -
  from assms obtain s' where s': "defineBassNote totalAcc totalSpin s = Some s'"
    using bass_returns [of s totalAcc totalSpin] by blast
  have m: "if totalAcc < 0.5 \<or> totalSpin < 0.5
          then duration (melodyCurrentNote (defineMelodyNote totalAcc totalSpin s)) = 50
          else duration (melodyCurrentNote (defineMelodyNote totalAcc totalSpin s))
                 \<in> set noteDuration"
    using melody_override [of totalAcc totalSpin s] melody_duration_normal [of totalAcc totalSpin s]
    by (cases "totalAcc < 0.5 \<or> totalSpin < 0.5") simp_all
  have b: "if totalAcc < 0.5 \<or> totalSpin < 0.5
                 then duration (bassCurrentNote s') = 50
                 else duration (bassCurrentNote s') \<in> (*) 2 ` set noteDuration"
    using bass_override [OF _ s'] bass_duration_normal [OF _ s']
    by (cases "totalAcc < 0.5 \<or> totalSpin < 0.5") simp_all
  have n: "50 \<notin> set noteDuration \<and> 50 \<notin> (*) 2 ` set noteDuration"
    by (simp add: set_noteDuration)
  from m b n s' show ?thesis by blast
qed

text \<open>The theorem in the initial state, once with the override (\<open>totalAcc = 0.25\<close>)
  and once without it (\<open>totalAcc = 1\<close>).\<close>

theorem duration_after_derivation_witness:
  "(0 \<le> pitch (melodyCurrentNote (initial_sketch (constant_rng 0)))
      \<and> pitch (melodyCurrentNote (initial_sketch (constant_rng 0))) \<le> 7)
   \<and> duration (melodyCurrentNote (defineMelodyNote (1/4) 1 (initial_sketch (constant_rng 0)))) = 50
   \<and> (\<exists>s'. defineBassNote (1/4) 1 (initial_sketch (constant_rng 0)) = Some s'
          \<and> duration (bassCurrentNote s') = 50)
   \<and> duration (melodyCurrentNote (defineMelodyNote 1 1 (initial_sketch (constant_rng 0))))
       \<in> set noteDuration
   \<and> (\<exists>s'. defineBassNote 1 1 (initial_sketch (constant_rng 0)) = Some s'
          \<and> duration (bassCurrentNote s') \<in> (*) 2 ` set noteDuration)"
proof -
  have p: "0 \<le> pitch (melodyCurrentNote (initial_sketch (constant_rng 0)))
      \<and> pitch (melodyCurrentNote (initial_sketch (constant_rng 0))) \<le> 7"
    by (simp add: initial_sketch_def)
  have y: "(1/4 :: real) < 0.5 \<or> (1 :: real) < 0.5"
    by simp
  have n: "\<not> ((1 :: real) < 0.5 \<or> (1 :: real) < 0.5)"
    by simp
  from duration_after_derivation [OF p, of "1/4" 1] duration_after_derivation [OF p, of 1 1] p y n
  show ?thesis by simp
qed

text \<open>
  The claim as it was stated has no exception for the override. In the initial state,
  with \<open>totalAcc = 0.25\<close> and \<open>totalSpin = 1\<close>, both voices get the duration 50, which is
  not in the table and not the double of a table value.
\<close>

theorem duration_in_table_counterexample:
  "duration (melodyCurrentNote (defineMelodyNote (1/4) 1 (initial_sketch (constant_rng 0)))) = 50
   \<and> map_option (duration \<circ> bassCurrentNote)
        (defineBassNote (1/4) 1 (initial_sketch (constant_rng 0))) = Some 50
   \<and> 50 \<notin> set noteDuration
   \<and> 50 \<notin> (*) 2 ` set noteDuration"
  by (simp add: defineMelodyNote_def defineBassNote_def defineNoteDuration_def
      random_range_def constant_rng_def initial_sketch_def harmonics_at_def harmonics_def
      set_noteDuration)

subsection \<open>C9: what the derivations write\<close>

text \<open>
  Claim C9. \<open>defineMelodyNote\<close> changes the pitch, the octave and the duration of the
  melody note and nothing else of the sketch; in particular the bass note is as before.
  \<open>defineBassNote\<close> changes the pitch, the octave and the duration of the bass note and
  nothing else; in particular the melody note, whose pitch it reads, is as before.
  The only other effect of either is that the generator has advanced. The bodies call
  \<^verbatim>\<open>random\<close>, \<^verbatim>\<open>abs\<close> and \<^verbatim>\<open>defineNoteDuration\<close> and no function of a peripheral, which is
  why a derivation is a function from sketch states to sketch states here.
\<close>

theorem mapper_frame:
  "(\<exists>p oct d g. defineMelodyNote totalAcc totalSpin s =
       s\<lparr> melodyCurrentNote :=
            (melodyCurrentNote s)\<lparr> pitch := p, octave := oct, duration := d \<rparr>,
          rng := g \<rparr>)
   \<and> bassCurrentNote (defineMelodyNote totalAcc totalSpin s) = bassCurrentNote s
   \<and> (\<forall>s'. defineBassNote totalAcc totalSpin s = Some s' \<longrightarrow>
         (\<exists>p oct d g. s' =
            s\<lparr> bassCurrentNote :=
                 (bassCurrentNote s)\<lparr> pitch := p, octave := oct, duration := d \<rparr>,
               rng := g \<rparr>)
         \<and> melodyCurrentNote s' = melodyCurrentNote s)"
proof -
  have m: "\<exists>p oct d g. defineMelodyNote totalAcc totalSpin s =
       s\<lparr> melodyCurrentNote :=
            (melodyCurrentNote s)\<lparr> pitch := p, octave := oct, duration := d \<rparr>,
          rng := g \<rparr>"
    using melody_frame_eq [of totalAcc totalSpin s] by blast
  have b: "\<exists>p oct d g. s' =
            s\<lparr> bassCurrentNote :=
                 (bassCurrentNote s)\<lparr> pitch := p, octave := oct, duration := d \<rparr>,
               rng := g \<rparr>"
    if "defineBassNote totalAcc totalSpin s = Some s'" for s'
    using bass_frame_eq [OF that] by blast
  from m b melody_keeps_bass [of totalAcc totalSpin s] bass_keeps_melody [of totalAcc totalSpin s]
  show ?thesis by blast
qed

text \<open>The theorem in the initial state with \<open>totalAcc = totalSpin = 1\<close>.\<close>

theorem mapper_frame_witness:
  "(\<exists>s'. defineBassNote 1 1 (initial_sketch (constant_rng 0)) = Some s'
       \<and> melodyCurrentNote s' = melodyCurrentNote (initial_sketch (constant_rng 0)))
   \<and> bassCurrentNote (defineMelodyNote 1 1 (initial_sketch (constant_rng 0)))
       = bassCurrentNote (initial_sketch (constant_rng 0))"
proof -
  have "0 \<le> pitch (melodyCurrentNote (initial_sketch (constant_rng 0)))"
    and "pitch (melodyCurrentNote (initial_sketch (constant_rng 0))) \<le> 7"
    by (simp_all add: initial_sketch_def)
  then obtain s' where s': "defineBassNote 1 1 (initial_sketch (constant_rng 0)) = Some s'"
    using bass_returns by blast
  with mapper_frame [of 1 1 "initial_sketch (constant_rng 0)"]
  show ?thesis by auto
qed

subsection \<open>C10: the octave of a silenced voice\<close>

text \<open>
  Claim C10. The override sets the pitch and the duration only. In every derivation in
  which it fires, the octave of the voice is the prior octave stepped by \<open>-1\<close> or \<open>+1\<close>
  and then wrapped, exactly as without the override, and it differs from the prior
  octave: the octave keeps moving while the voice is silent.
\<close>

theorem octave_walks_while_silenced:
  assumes "totalAcc < 0.5 \<or> totalSpin < 0.5"
  shows "octave (melodyCurrentNote (defineMelodyNote totalAcc totalSpin s)) =
           (let oct = octave (melodyCurrentNote s) + (if totalAcc < 3 then - 1 else 1)
            in if oct < 0 then 5 else if oct > 5 then 2 else oct)
       \<and> octave (melodyCurrentNote (defineMelodyNote totalAcc totalSpin s))
           \<noteq> octave (melodyCurrentNote s)
       \<and> (\<forall>s'. defineBassNote totalAcc totalSpin s = Some s' \<longrightarrow>
             octave (bassCurrentNote s') =
               (let oct = octave (bassCurrentNote s) + (if totalSpin < 3 then - 1 else 1)
                in if oct < 0 then 2 else if oct > 5 then 0 else oct)
             \<and> octave (bassCurrentNote s') \<noteq> octave (bassCurrentNote s))"
proof -
  have m: "octave (melodyCurrentNote (defineMelodyNote totalAcc totalSpin s)) =
           (let oct = octave (melodyCurrentNote s) + (if totalAcc < 3 then - 1 else 1)
            in if oct < 0 then 5 else if oct > 5 then 2 else oct)"
    by (rule melody_octave_eq)
  then have m': "octave (melodyCurrentNote (defineMelodyNote totalAcc totalSpin s))
           \<noteq> octave (melodyCurrentNote s)"
    by (simp add: Let_def split: if_splits)
  have b: "octave (bassCurrentNote s') =
               (let oct = octave (bassCurrentNote s) + (if totalSpin < 3 then - 1 else 1)
                in if oct < 0 then 2 else if oct > 5 then 0 else oct)
             \<and> octave (bassCurrentNote s') \<noteq> octave (bassCurrentNote s)"
    if "defineBassNote totalAcc totalSpin s = Some s'" for s'
    using bass_octave_eq [OF that] by (simp add: Let_def split: if_splits)
  from m m' b show ?thesis by blast
qed

text \<open>The theorem in the initial state with \<open>totalAcc = 0.25\<close> and \<open>totalSpin = 1\<close>:
  the melody octave goes from 3 to 2, the bass octave from 0 over \<open>-1\<close> to 2.\<close>

theorem octave_walks_while_silenced_witness:
  "((1/4 :: real) < 0.5 \<or> (1 :: real) < 0.5)
   \<and> octave (melodyCurrentNote (initial_sketch (constant_rng 0))) = 3
   \<and> octave (melodyCurrentNote (defineMelodyNote (1/4) 1 (initial_sketch (constant_rng 0)))) = 2
   \<and> octave (bassCurrentNote (initial_sketch (constant_rng 0))) = 0
   \<and> (\<exists>s'. defineBassNote (1/4) 1 (initial_sketch (constant_rng 0)) = Some s'
          \<and> octave (bassCurrentNote s') = 2)"
proof -
  have y: "(1/4 :: real) < 0.5 \<or> (1 :: real) < 0.5"
    by simp
  obtain s' where s': "defineBassNote (1/4) 1 (initial_sketch (constant_rng 0)) = Some s'"
    using bass_returns [of "initial_sketch (constant_rng 0)" "1/4" 1]
    by (auto simp: initial_sketch_def)
  from octave_walks_while_silenced [OF y, of "initial_sketch (constant_rng 0)"] s'
  have "octave (melodyCurrentNote (defineMelodyNote (1/4) 1 (initial_sketch (constant_rng 0)))) = 2"
    and "octave (bassCurrentNote s') = 2"
    by (simp_all add: initial_sketch_def)
  with y s' show ?thesis
    by (simp add: initial_sketch_def)
qed

end
